theory Spec2Isabelle
  imports Main "HOL-Library.Word"
begin

unbundle bit_operations_syntax

section \<open>Constants of Common.h\<close>

definition RECORD_SIZE :: nat where "RECORD_SIZE = 24"
definition SLOTS_SIZE :: nat where "SLOTS_SIZE = 64"
definition SLOTS_NUM :: nat where "SLOTS_NUM = 4"
definition CACHELINE :: nat where "CACHELINE = 64"

section \<open>Device pass: values built by \<open>InstrumentDevicePass::setupTraceInfo\<close>\<close>

text \<open>
  The pass emits straight-line integer IR at kernel entry.  Each IR value is modelled by the
  word it computes at run time, as a function of the special registers it reads
  (\<open>%ctaid.x/y/z\<close> and \<open>%smid\<close>, all 32 bits wide).  \<open>CreateZExt\<close> is \<open>ucast\<close> to 64
  bits, \<open>CreateLShr\<close> is \<open>drop_bit\<close>, \<open>CreateAnd\<close>/\<open>CreateOr\<close> are \<open>AND\<close>/\<open>OR\<close>,
  \<open>CreateMul\<close> on \<open>i32\<close> is multiplication of 32-bit words.
\<close>

definition ctaid_serialized :: "32 word \<Rightarrow> 32 word \<Rightarrow> 32 word \<Rightarrow> 64 word" where
  "ctaid_serialized cx cy cz =
     (let ctaid0 = (ucast cx :: 64 word);
          ctaid1 = (ucast cy :: 64 word);
          ctaid2 = (ucast cz :: 64 word);
          cta_arg_x = drop_bit 32 ctaid0;
          cta_arg_y0 = ctaid1 AND 0xFFFF;
          cta_arg_y = drop_bit 16 cta_arg_y0;
          cta_arg_z = ctaid2 AND 0xFFFF
      in (cta_arg_x OR cta_arg_y) OR cta_arg_z)"

text \<open>
  The sibling computation in \<open>PluginEntry::ParseArgs\<close> (option \<open>cta=x/y/z\<close>), which builds
  the identifier that the recorded one is compared with: \<open>uint32_t ctaid[3]\<close>, widened to
  \<open>uint64_t\<close>, shifted left and added.
\<close>

definition ctaid_conv :: "32 word \<Rightarrow> 32 word \<Rightarrow> 32 word \<Rightarrow> 64 word" where
  "ctaid_conv c0 c1 c2 =
     push_bit 32 (ucast c0 :: 64 word)
     + push_bit 16 (ucast (c1 AND 0xFFFF) :: 64 word)
     + ((ucast c2 :: 64 word) AND 0xFFFF)"

text \<open>\<open>slot = smid & (SLOTS_NUM - 1)\<close>, \<open>base_i = slot * CACHELINE\<close>,
  \<open>slot_i = slot * SLOTS_SIZE * RECORD_SIZE\<close>, all on \<open>i32\<close>.\<close>

definition slot :: "32 word \<Rightarrow> 32 word" where
  "slot smid = smid AND (of_nat (SLOTS_NUM - 1))"

definition base_i :: "32 word \<Rightarrow> 32 word" where
  "base_i smid = slot smid * of_nat CACHELINE"

definition slot_i :: "32 word \<Rightarrow> 32 word" where
  "slot_i smid = (slot smid * of_nat SLOTS_SIZE) * of_nat RECORD_SIZE"

text \<open>
  \<open>CreateInBoundsGEP(i8_ty, p, idx)\<close>: the byte address \<open>p + idx\<close>, the \<open>i32\<close> index read
  as a signed number.  Addresses are integers; the cache line of an address is its quotient
  by \<open>CACHELINE\<close>.
\<close>

definition gep_i8 :: "int \<Rightarrow> 32 word \<Rightarrow> int" where
  "gep_i8 p idx = p + sint idx"

definition allocs :: "int \<Rightarrow> 32 word \<Rightarrow> int" where
  "allocs allocs_base smid = gep_i8 allocs_base (base_i smid)"

definition commits :: "int \<Rightarrow> 32 word \<Rightarrow> int" where
  "commits commits_base smid = gep_i8 commits_base (base_i smid)"

definition records :: "int \<Rightarrow> 32 word \<Rightarrow> int" where
  "records records_base smid = gep_i8 records_base (slot_i smid)"

definition cache_line :: "int \<Rightarrow> int" where
  "cache_line a = a div int CACHELINE"

section \<open>Files\<close>

type_synonym byte = "8 word"

text \<open>
  A stream opened for reading is the list of bytes not yet consumed.  \<open>fread(buf, size, 1, f)\<close>
  returns the number of complete items read (0 or 1), the bytes stored and the stream left.
  As the C standard says, a request of size 0 reads nothing and returns 0; a short read
  consumes what is left and returns 0.
\<close>

type_synonym rfile = "byte list"

definition fread1 :: "nat \<Rightarrow> rfile \<Rightarrow> nat \<times> byte list \<times> rfile" where
  "fread1 sz f =
     (if sz = 0 then (0, [], f)
      else if sz \<le> length f then (1, take sz f, drop sz f)
      else (0, f, []))"

text \<open>
  A stream opened for writing: the bytes written so far and the room left on the device.
  \<open>fwrite(buf, size, 1, f)\<close> returns 0 for a request of size 0 (and leaves the stream
  alone), 1 when all \<open>size\<close> bytes fit, and 0 after storing the bytes that fit otherwise.
\<close>

record wfile =
  written :: "byte list"
  room :: nat

definition fwrite1 :: "byte list \<Rightarrow> nat \<Rightarrow> wfile \<Rightarrow> nat \<times> wfile" where
  "fwrite1 buf sz f =
     (if sz = 0 then (0, f)
      else if sz \<le> room f
        then (1, f\<lparr>written := written f @ take sz buf, room := room f - sz\<rparr>)
        else (0, f\<lparr>written := written f @ take (room f) buf, room := 0\<rparr>))"

text \<open>A 64-bit object as it lies in memory on the (little-endian) host, and back.\<close>

definition word_bytes :: "64 word \<Rightarrow> byte list" where
  "word_bytes w = map (\<lambda>i. ucast (drop_bit (8 * i) w)) [0..<8]"

definition bytes_word :: "byte list \<Rightarrow> 64 word" where
  "bytes_word bs = foldr (\<lambda>b w. ucast b OR push_bit 8 w) bs 0"

section \<open>cutrace_io.h: data\<close>

definition v2 :: "byte list" where
  "v2 = [0x19, 0x43, 0x55, 0x44, 0x41, 0x54, 0x52, 0x41, 0x43, 0x45]"

definition v3 :: "byte list" where
  "v3 = [0x1a, 0x43, 0x55, 0x44, 0x41, 0x54, 0x52, 0x41, 0x43, 0x45]"

text \<open>\<open>int32_t offset\<close> and \<open>int8_t count\<close> are words read by \<open>sint\<close>.\<close>

record trace_record_addr_t =
  addr :: "64 word"
  offset :: "32 word"
  count_f :: "8 word"

text \<open>The flexible array member \<open>addr_unit[]\<close> is the list of the units present.\<close>

record trace_record_t =
  ctaid_x :: "32 word"
  ctaid_y :: "16 word"
  ctaid_z :: "16 word"
  clock :: "64 word"
  warp :: "32 word"
  size_f :: "32 word"
  debug :: "32 word"
  type_f :: "8 word"
  addr_len :: "8 word"
  smid :: "8 word"
  addr_unit :: "trace_record_addr_t list"

text \<open>\<open>kernel_name\<close> is \<open>None\<close> for \<open>NULL\<close>, else the bytes before the terminator.\<close>

record trace_t =
  file_f :: rfile
  block_size :: "16 word"
  version :: "8 word"
  new_kernel :: "8 word"
  kernel_name :: "byte list option"
  cur_record :: trace_record_t

section \<open>Record wire format\<close>

text \<open>\<open>record_t\<close> of Common.h: the first three 64-bit words of a wire record.\<close>

record record_t =
  desc :: "64 word"
  addr_w :: "64 word"
  cta :: "64 word"

text \<open>
  The macros \<open>RECORD_SET_INIT\<close> and \<open>RECORD_GET_ALEN\<close> \<dots> \<open>RECORD_GET_SIZE\<close>, which lay
  the nine header fields out in a \<open>record_t\<close>, are used by cutrace_io.h but defined in
  none of the source files.  The codec takes them as a parameter.
\<close>

record header_macros =
  RECORD_SET_INIT :: "byte \<Rightarrow> byte \<Rightarrow> byte \<Rightarrow> 32 word \<Rightarrow> 32 word \<Rightarrow> 16 word \<Rightarrow> 16 word
                        \<Rightarrow> 64 word \<Rightarrow> 32 word \<Rightarrow> record_t"
  RECORD_GET_ALEN :: "record_t \<Rightarrow> byte"
  RECORD_GET_TYPE :: "record_t \<Rightarrow> byte"
  RECORD_GET_SMID :: "record_t \<Rightarrow> byte"
  RECORD_GET_WARP :: "record_t \<Rightarrow> 32 word"
  RECORD_GET_CTAX :: "record_t \<Rightarrow> 32 word"
  RECORD_GET_CTAY :: "record_t \<Rightarrow> 16 word"
  RECORD_GET_CTAZ :: "record_t \<Rightarrow> 16 word"
  RECORD_GET_CLOCK :: "record_t \<Rightarrow> 64 word"
  RECORD_GET_SIZE :: "record_t \<Rightarrow> 32 word"

text \<open>
  A buffer holding a wire record is a list of 64-bit words; a \<open>record_t *\<close> pointing to it
  sees its first three words.
\<close>

definition header_of :: "64 word list \<Rightarrow> record_t" where
  "header_of buf = \<lparr>desc = buf ! 0, addr_w = buf ! 1, cta = buf ! 2\<rparr>"

definition header_words :: "record_t \<Rightarrow> 64 word list" where
  "header_words h = [desc h, addr_w h, cta h]"

text \<open>Modelled from the spec: the macro \<open>RECORD_RAW_SIZE\<close> is missing from the source.  The
  wire size of a record is the fixed 24-byte header plus one unit per address, a unit
  being a 64-bit address and a 64-bit word for offset and count.
\<close>

definition RECORD_RAW_SIZE :: "nat \<Rightarrow> nat" where
  "RECORD_RAW_SIZE n = 24 + 16 * n"

text \<open>Modelled from the spec: the macro \<open>RECORD_ADDR\<close> is missing from the source.  The
  address of unit \<open>i\<close> is the first word of the \<open>i\<close>-th unit after the header.
\<close>

definition RECORD_ADDR :: "64 word list \<Rightarrow> nat \<Rightarrow> 64 word" where
  "RECORD_ADDR buf i = buf ! (3 + 2 * i)"

text \<open>Modelled from the spec: the macro \<open>RECORD_ADDR_META\<close> is missing from the source.  The
  word for offset and count is the second word of the \<open>i\<close>-th unit.
\<close>

definition RECORD_ADDR_META :: "64 word list \<Rightarrow> nat \<Rightarrow> 64 word" where
  "RECORD_ADDR_META buf i = buf ! (3 + 2 * i + 1)"

text \<open>Modelled from the spec: the macro \<open>RECORD_GET_OFFSET\<close> is missing from the source.  It
  reads the 32-bit signed offset from where \<open>__trace_pack\<close> puts it, above the low 8 bits.
\<close>

definition RECORD_GET_OFFSET :: "64 word list \<Rightarrow> nat \<Rightarrow> 32 word" where
  "RECORD_GET_OFFSET buf i = ucast (drop_bit 8 (RECORD_ADDR_META buf i))"

text \<open>Modelled from the spec: the macro \<open>RECORD_GET_COUNT\<close> is missing from the source.  It
  reads the 8-bit repeat count from where \<open>__trace_pack\<close> puts it, the low 8 bits.
\<close>

definition RECORD_GET_COUNT :: "64 word list \<Rightarrow> nat \<Rightarrow> 8 word" where
  "RECORD_GET_COUNT buf i = ucast (RECORD_ADDR_META buf i AND 0xFF)"

text \<open>
  \<open>TRACE_RECORD_SIZE(addr_len)\<close>: \<open>offsetof(trace_record_t, addr_unit)\<close> is 32 and
  \<open>sizeof(trace_record_addr_t)\<close> is 16 on the 64-bit host.
\<close>

definition TRACE_RECORD_SIZE :: "nat \<Rightarrow> nat" where
  "TRACE_RECORD_SIZE n = 32 + 16 * n"

text \<open>
  The value stored in \<open>RECORD_ADDR_META(buf, i)\<close> (line 156):
  \<open>(offset << 8) | ((int64_t)count & 0xFF)\<close>.  \<open>offset\<close> is an \<open>int32_t\<close>, so the shift is
  done on 32 bits, where the bits shifted out are dropped (what compilers emit; the C
  standard leaves an overflowing signed shift undefined), and its result is sign-extended
  to meet the 64-bit right operand.
\<close>

definition addr_meta :: "32 word \<Rightarrow> 8 word \<Rightarrow> 64 word" where
  "addr_meta off cnt =
     (scast (push_bit 8 off :: 32 word) :: 64 word) OR ((scast cnt :: 64 word) AND 0xFF)"

definition unit_words :: "trace_record_addr_t \<Rightarrow> 64 word list" where
  "unit_words u = [addr u, addr_meta (offset u) (count_f u)]"

text \<open>
  \<open>__trace_pack\<close>: the buffer it fills.  \<open>None\<close> when the loop would read a unit that the
  record does not have.
\<close>

definition trace_pack :: "header_macros \<Rightarrow> trace_record_t \<Rightarrow> 64 word list option" where
  "trace_pack M r =
     (if length (addr_unit r) < unat (addr_len r) then None
      else Some
        (header_words
           (RECORD_SET_INIT M (addr_len r) (type_f r) (smid r) (warp r)
              (ctaid_x r) (ctaid_y r) (ctaid_z r) (clock r) (size_f r))
         @ concat (map (\<lambda>i. unit_words (addr_unit r ! i)) [0..<unat (addr_len r)])))"

text \<open>
  \<open>__trace_unpack\<close>: the record it leaves in \<open>*record\<close>.  Every field but \<open>debug\<close> is
  assigned; \<open>addr_unit\<close> becomes the list of the \<open>addr_len\<close> units read.  \<open>None\<close> when the
  loop would read past the words of the buffer.
\<close>

definition trace_unpack :: "header_macros \<Rightarrow> 64 word list \<Rightarrow> trace_record_t \<Rightarrow> trace_record_t option"
  where
  "trace_unpack M buf rec =
     (let h = header_of buf; alen = RECORD_GET_ALEN M h
      in if length buf < 3 + 2 * unat alen then None
         else Some (rec\<lparr>
           addr_len := alen,
           type_f := RECORD_GET_TYPE M h,
           smid := RECORD_GET_SMID M h,
           warp := RECORD_GET_WARP M h,
           ctaid_x := RECORD_GET_CTAX M h,
           ctaid_y := RECORD_GET_CTAY M h,
           ctaid_z := RECORD_GET_CTAZ M h,
           clock := RECORD_GET_CLOCK M h,
           size_f := RECORD_GET_SIZE M h,
           addr_unit := map (\<lambda>i. \<lparr>addr = RECORD_ADDR buf i,
                                   offset = RECORD_GET_OFFSET buf i,
                                   count_f = RECORD_GET_COUNT buf i\<rparr>) [0..<unat alen]\<rparr>))"

text \<open>\<open>__trace_unpack\<close> applied to the buffer that \<open>__trace_pack\<close> filled.\<close>

definition unpack_packed :: "header_macros \<Rightarrow> trace_record_t \<Rightarrow> trace_record_t \<Rightarrow> trace_record_t option"
  where
  "unpack_packed M r dst =
     (case trace_pack M r of None \<Rightarrow> None | Some buf \<Rightarrow> trace_unpack M buf dst)"

text \<open>Words and bytes of a buffer.\<close>

definition bytes_of_words :: "64 word list \<Rightarrow> byte list" where
  "bytes_of_words ws = concat (map word_bytes ws)"

fun words_of_bytes :: "byte list \<Rightarrow> 64 word list" where
  "words_of_bytes (b0 # b1 # b2 # b3 # b4 # b5 # b6 # b7 # bs) =
     bytes_word [b0, b1, b2, b3, b4, b5, b6, b7] # words_of_bytes bs"
| "words_of_bytes _ = []"

section \<open>cutrace_io.h: reader\<close>

text \<open>
  \<open>trace_open\<close>.  The global \<open>trace_last_error\<close> is passed in and returned.  \<open>mem\<close> is the
  indeterminate content of the block that \<open>malloc\<close> returns; four fields are assigned.
\<close>

definition trace_open :: "rfile \<Rightarrow> trace_t \<Rightarrow> string option \<Rightarrow> trace_t option \<times> string option"
  where
  "trace_open f mem err =
     (case fread1 10 f of (n, versionbuf, f') \<Rightarrow>
        if n \<noteq> 1 then (None, Some ''unable to read version'')
        else if versionbuf = v2
          then (Some (mem\<lparr>file_f := f', version := 2, kernel_name := None, new_kernel := 0\<rparr>), err)
        else if versionbuf = v3
          then (Some (mem\<lparr>file_f := f', version := 3, kernel_name := None, new_kernel := 0\<rparr>), err)
        else (None, Some ''invalid version''))"

text \<open>
  \<open>trace_next\<close>: result, stream state and \<open>trace_last_error\<close>.  The local \<open>buf\<close> has
  \<open>TRACE_RECORD_SIZE(32)/8+1\<close> words and \<open>t->record\<close> has room for 32 units; the result is
  \<open>None\<close> when \<open>fread\<close> would store past \<open>buf\<close> or \<open>__trace_unpack\<close> past \<open>t->record\<close>.
  \<open>kernel_name\<close> is read as a C string, up to the first zero byte; after a failed read of
  the name it points to a block that holds the bytes read so far.
\<close>

definition c_string :: "byte list \<Rightarrow> byte list" where
  "c_string bs = takeWhile (\<lambda>b. b \<noteq> 0) bs"

definition trace_next :: "header_macros \<Rightarrow> trace_t \<Rightarrow> (int \<times> trace_t \<times> string option) option"
  where
  "trace_next M t =
     (case fread1 8 (file_f t) of (n, bs, f1) \<Rightarrow>
        if n \<noteq> 1 then Some (1, t\<lparr>file_f := f1\<rparr>, None)
        else
          let buf0 = bytes_word bs;
              ch = (ucast (drop_bit 56 buf0 AND 0xFF) :: byte)
          in if ch = 0 then
               let name_len = (ucast (drop_bit 48 buf0 AND 0xFF) :: byte);
                   bsz = (ucast (drop_bit 32 buf0 AND 0xFFFF) :: 16 word)
               in case fread1 (unat name_len) f1 of (m, nm, f2) \<Rightarrow>
                    if m \<noteq> 1
                    then Some (1, t\<lparr>file_f := f2, kernel_name := Some (c_string nm)\<rparr>,
                               Some ''unable to read kernel name length'')
                    else Some (0, t\<lparr>file_f := f2, kernel_name := Some (c_string nm),
                                    new_kernel := 1, block_size := bsz\<rparr>, None)
             else
               let t1 = t\<lparr>new_kernel := 0\<rparr>
               in case fread1 (RECORD_RAW_SIZE (unat ch) - 8) f1 of (m, body, f2) \<Rightarrow>
                    if 8 * (TRACE_RECORD_SIZE 32 div 8 + 1) < 8 + length body then None
                    else if m \<noteq> 1
                    then Some (1, t1\<lparr>file_f := f2\<rparr>, Some ''unable to read record'')
                    else (case trace_unpack M (words_of_bytes (bs @ body)) (cur_record t1) of
                            None \<Rightarrow> None
                          | Some r \<Rightarrow>
                              if 32 < unat (addr_len r) then None
                              else Some (0, t1\<lparr>file_f := f2, cur_record := r\<rparr>, None)))"

section \<open>cutrace_io.h: writer\<close>

text \<open>Each writer returns its \<open>int\<close> result, the stream and \<open>trace_last_error\<close>.\<close>

definition trace_write_header :: "wfile \<Rightarrow> 32 word \<Rightarrow> int \<times> wfile \<times> string option" where
  "trace_write_header f ver =
     (if ver = 2 then
        (case fwrite1 v2 10 f of (n, f') \<Rightarrow>
           if n < 1 then (1, f', Some ''write error'') else (0, f', None))
      else if ver = 3 then
        (case fwrite1 v3 10 f of (n, f') \<Rightarrow>
           if n < 1 then (1, f', Some ''write error'') else (0, f', None))
      else (1, f, Some ''invalid version''))"

text \<open>
  \<open>trace_write_kernel\<close>.  \<open>name\<close> is the C string without its terminator, so \<open>strlen\<close> is
  \<open>length\<close>; the memory handed to \<open>fwrite\<close> is \<open>name\<close> followed by the terminator.
\<close>

definition kernel_header :: "byte \<Rightarrow> 16 word \<Rightarrow> 64 word" where
  "kernel_header name_len bsz =
     push_bit 48 (ucast name_len :: 64 word) OR push_bit 32 (ucast bsz :: 64 word)"

definition trace_write_kernel :: "wfile \<Rightarrow> byte list \<Rightarrow> 16 word \<Rightarrow> int \<times> wfile \<times> string option"
  where
  "trace_write_kernel f name bsz =
     (let name_len = (ucast ((of_nat (length name) :: 64 word) AND 0xFF) :: byte);
          header = kernel_header name_len bsz
      in case fwrite1 (word_bytes header) 8 f of (n, f1) \<Rightarrow>
           if n < 1 then (1, f1, Some ''write error'')
           else case fwrite1 (name @ [0]) (unat name_len) f1 of (m, f2) \<Rightarrow>
             if m < 1 then (1, f2, Some ''write error'')
             else (0, f2, None))"

text \<open>
  \<open>trace_write_record\<close>.  The local \<open>buf\<close> has \<open>TRACE_RECORD_SIZE(32)\<close> bytes; the result
  is \<open>None\<close> when \<open>__trace_pack\<close> would store past it.  On success \<open>trace_last_error\<close> is
  left as it was.
\<close>

definition trace_write_record ::
  "header_macros \<Rightarrow> wfile \<Rightarrow> trace_record_t \<Rightarrow> string option \<Rightarrow> (int \<times> wfile \<times> string option) option"
  where
  "trace_write_record M f r err =
     (if TRACE_RECORD_SIZE 32 < RECORD_RAW_SIZE (unat (addr_len r)) then None
      else case trace_pack M r of
             None \<Rightarrow> None
           | Some buf \<Rightarrow>
               (case fwrite1 (bytes_of_words buf) (RECORD_RAW_SIZE (unat (addr_len r))) f of
                  (n, f1) \<Rightarrow>
                    if n < 1 then Some (1, f1, Some ''write error'') else Some (0, f1, err)))"

section \<open>Reading and writing in the spec's terms\<close>

text \<open>
  The header macros store the header fields of \<open>r\<close> without loss: each getter returns what
  \<open>RECORD_SET_INIT\<close> was given.
\<close>

definition header_kept :: "header_macros \<Rightarrow> trace_record_t \<Rightarrow> bool" where
  "header_kept M r =
     (let h = RECORD_SET_INIT M (addr_len r) (type_f r) (smid r) (warp r)
                (ctaid_x r) (ctaid_y r) (ctaid_z r) (clock r) (size_f r)
      in RECORD_GET_ALEN M h = addr_len r
         \<and> RECORD_GET_TYPE M h = type_f r
         \<and> RECORD_GET_SMID M h = smid r
         \<and> RECORD_GET_WARP M h = warp r
         \<and> RECORD_GET_CTAX M h = ctaid_x r
         \<and> RECORD_GET_CTAY M h = ctaid_y r
         \<and> RECORD_GET_CTAZ M h = ctaid_z r
         \<and> RECORD_GET_CLOCK M h = clock r
         \<and> RECORD_GET_SIZE M h = size_f r)"

text \<open>
  The byte that \<open>trace_next\<close> inspects, the top byte of the first word, is the number of
  address units.
\<close>

definition tag_kept :: "header_macros \<Rightarrow> trace_record_t \<Rightarrow> bool" where
  "tag_kept M r =
     ((ucast (drop_bit 56 (desc (RECORD_SET_INIT M (addr_len r) (type_f r) (smid r) (warp r)
                (ctaid_x r) (ctaid_y r) (ctaid_z r) (clock r) (size_f r))) AND 0xFF) :: byte)
      = addr_len r)"

text \<open>Every offset of the record lies in the signed 24-bit range.\<close>

definition offsets_fit :: "trace_record_t \<Rightarrow> bool" where
  "offsets_fit r =
     list_all (\<lambda>u. - 8388608 \<le> sint (offset u) \<and> sint (offset u) < 8388608) (addr_unit r)"

text \<open>
  What a client sees after \<open>trace_next\<close> has returned 0: a kernel frame when \<open>new_kernel\<close> is
  set, else a record.  A run of calls ends with end-of-file (result 1, no error), with an
  error, or because the client stops.
\<close>

datatype frame = Kernel "byte list option" "16 word" | Record trace_record_t

datatype ending = Eof | Failed string | Stopped

definition frame_of :: "trace_t \<Rightarrow> frame" where
  "frame_of t =
     (if new_kernel t \<noteq> 0 then Kernel (kernel_name t) (block_size t) else Record (cur_record t))"

fun read_frames :: "header_macros \<Rightarrow> nat \<Rightarrow> trace_t \<Rightarrow> (frame list \<times> ending) option" where
  "read_frames M 0 t = Some ([], Stopped)"
| "read_frames M (Suc n) t =
     (case trace_next M t of
        None \<Rightarrow> None
      | Some (rc, t', e) \<Rightarrow>
          if rc = 0
          then (case read_frames M n t' of
                  None \<Rightarrow> None
                | Some (fs, en) \<Rightarrow> Some (frame_of t' # fs, en))
          else Some ([], case e of None \<Rightarrow> Eof | Some msg \<Rightarrow> Failed msg))"

text \<open>
  The test of the spec (section 8): write a version-3 header, a kernel frame and one record
  to an empty file with \<open>space\<close> bytes of room, reopen what was written and read up to three
  frames.  \<open>None\<close> when a writer fails or the file does not open.
\<close>

definition write_kernel_record ::
  "header_macros \<Rightarrow> nat \<Rightarrow> byte list \<Rightarrow> 16 word \<Rightarrow> trace_record_t \<Rightarrow> byte list option" where
  "write_kernel_record M space name bsz r =
     (case trace_write_header \<lparr>written = [], room = space\<rparr> 3 of (rc1, f1, e1) \<Rightarrow>
        if rc1 \<noteq> 0 then None
        else case trace_write_kernel f1 name bsz of (rc2, f2, e2) \<Rightarrow>
          if rc2 \<noteq> 0 then None
          else case trace_write_record M f2 r e2 of
                 None \<Rightarrow> None
               | Some (rc3, f3, e3) \<Rightarrow> if rc3 \<noteq> 0 then None else Some (written f3))"

definition reopen_and_read ::
  "header_macros \<Rightarrow> trace_t \<Rightarrow> nat \<Rightarrow> byte list \<Rightarrow> (byte \<times> frame list \<times> ending) option" where
  "reopen_and_read M mem n bytes =
     (case fst (trace_open bytes mem None) of
        None \<Rightarrow> None
      | Some t \<Rightarrow> (case read_frames M n t of
                     None \<Rightarrow> None
                   | Some (fs, en) \<Rightarrow> Some (version t, fs, en)))"

text \<open>A file with its last three bytes removed.\<close>

definition truncate3 :: "byte list \<Rightarrow> byte list" where
  "truncate3 bs = take (length bs - 3) bs"

section \<open>Concrete inputs\<close>

text \<open>Modelled from the spec: the header macros are missing from the source.  This is one
  layout that follows the spec's three-word header: word 0 holds the address-unit count
  (top byte), type, sm id, access size (8 bits) and warp id; word 2 holds the coordinate
  identifier, x in the high 32 bits, then y, then z; word 1 is given to the clock, which
  the reader takes from the header.  It serves to evaluate the codec at concrete records.
\<close>

definition spec_macros :: header_macros where
  "spec_macros =
     \<lparr>RECORD_SET_INIT = (\<lambda>alen ty sm wp x y z clk sz.
          \<lparr>desc = push_bit 56 (ucast alen) OR push_bit 48 (ucast ty) OR push_bit 40 (ucast sm)
                   OR push_bit 32 (ucast sz AND 0xFF) OR ucast wp,
           addr_w = clk,
           cta = push_bit 32 (ucast x) OR push_bit 16 (ucast y) OR ucast z\<rparr>),
      RECORD_GET_ALEN = (\<lambda>h. ucast (drop_bit 56 (desc h))),
      RECORD_GET_TYPE = (\<lambda>h. ucast (drop_bit 48 (desc h))),
      RECORD_GET_SMID = (\<lambda>h. ucast (drop_bit 40 (desc h))),
      RECORD_GET_WARP = (\<lambda>h. ucast (desc h)),
      RECORD_GET_CTAX = (\<lambda>h. ucast (drop_bit 32 (cta h))),
      RECORD_GET_CTAY = (\<lambda>h. ucast (drop_bit 16 (cta h))),
      RECORD_GET_CTAZ = (\<lambda>h. ucast (cta h)),
      RECORD_GET_CLOCK = (\<lambda>h. addr_w h),
      RECORD_GET_SIZE = (\<lambda>h. ucast (drop_bit 32 (desc h)) AND 0xFF)\<rparr>"

text \<open>A record of three loads of 4 bytes, and an all-zero block of memory for a stream.\<close>

definition rec3 :: trace_record_t where
  "rec3 = \<lparr>ctaid_x = 2, ctaid_y = 1, ctaid_z = 0, clock = 1000, warp = 5, size_f = 4,
           debug = 0, type_f = 1, addr_len = 3, smid = 6,
           addr_unit = [\<lparr>addr = 4096, offset = 0, count_f = 1\<rparr>,
                        \<lparr>addr = 4100, offset = 4, count_f = 2\<rparr>,
                        \<lparr>addr = 8192, offset = - 8, count_f = 1\<rparr>]\<rparr>"

text \<open>A record with one unit whose offset is \<open>2 ^ 24\<close>, and one with \<open>debug\<close> set.\<close>

definition rec_far :: trace_record_t where
  "rec_far = \<lparr>ctaid_x = 2, ctaid_y = 1, ctaid_z = 0, clock = 1000, warp = 5, size_f = 4,
           debug = 0, type_f = 1, addr_len = 1, smid = 6,
           addr_unit = [\<lparr>addr = 4096, offset = 0x1000000, count_f = 1\<rparr>]\<rparr>"

definition rec_dbg :: trace_record_t where
  "rec_dbg = rec3\<lparr>debug := 9\<rparr>"

definition rec3_far :: trace_record_t where
  "rec3_far = rec3\<lparr>addr_unit := [\<lparr>addr = 4096, offset = 0x1000000, count_f = 1\<rparr>,
                                     \<lparr>addr = 4100, offset = 4, count_f = 2\<rparr>,
                                     \<lparr>addr = 8192, offset = - 8, count_f = 1\<rparr>]\<rparr>"

definition mem0 :: trace_t where
  "mem0 = \<lparr>file_f = [], block_size = 0, version = 0, new_kernel = 0, kernel_name = None,
           cur_record = \<lparr>ctaid_x = 0, ctaid_y = 0, ctaid_z = 0, clock = 0, warp = 0, size_f = 0,
             debug = 0, type_f = 0, addr_len = 0, smid = 0, addr_unit = []\<rparr>\<rparr>"

section \<open>Bytes, words and address units\<close>

lemma length_word_bytes: "length (word_bytes w) = 8"
  by (simp add: word_bytes_def)

lemma and_FF: "(w :: 'a::len word) AND 0xFF = take_bit 8 w"
  by (simp add: take_bit_eq_mask mask_eq_exp_minus_1)

lemma and_FFFF: "(w :: 'a::len word) AND 0xFFFF = take_bit 16 w"
  by (simp add: take_bit_eq_mask mask_eq_exp_minus_1)

lemma word_bytes_expl:
  "word_bytes w = [ucast w, ucast (drop_bit 8 w), ucast (drop_bit 16 w), ucast (drop_bit 24 w),
     ucast (drop_bit 32 w), ucast (drop_bit 40 w), ucast (drop_bit 48 w), ucast (drop_bit 56 w)]"
  by (simp add: word_bytes_def upt_rec [of _ 8])

lemma byte_step:
  "ucast (ucast (drop_bit n w) :: byte) OR push_bit 8 (drop_bit (n + 8) w) = drop_bit n (w :: 64 word)"
proof (rule bit_word_eqI)
  fix k assume "k < LENGTH(64)"
  then have k: "k < 64" by simp
  show "bit (ucast (ucast (drop_bit n w) :: byte) OR push_bit 8 (drop_bit (n + 8) w)) k
        = bit (drop_bit n w) k"
  proof (cases "k < 8")
    case True
    then show ?thesis using k by (simp add: bit_simps)
  next
    case False
    then have "n + 8 + (k - 8) = n + k" by simp
    with False show ?thesis using k by (simp add: bit_simps)
  qed
qed

lemma byte_last: "ucast (ucast (drop_bit 56 w) :: byte) = drop_bit 56 (w :: 64 word)"
  by (rule bit_word_eqI) (auto simp: bit_simps dest: bit_imp_le_length)

lemma bytes_word_bytes: "bytes_word (word_bytes w) = w"
  unfolding word_bytes_expl bytes_word_def
  by (simp add: byte_last byte_step [of 48, simplified] byte_step [of 40, simplified]
      byte_step [of 32, simplified] byte_step [of 24, simplified] byte_step [of 16, simplified]
      byte_step [of 8, simplified] byte_step [of 0, simplified])

lemma words_of_bytes_append:
  "words_of_bytes (word_bytes w @ bs) = w # words_of_bytes bs"
proof -
  have "words_of_bytes (word_bytes w @ bs) = bytes_word (word_bytes w) # words_of_bytes bs"
    by (simp add: word_bytes_expl)
  then show ?thesis by (simp only: bytes_word_bytes)
qed

lemma words_of_bytes_of_words: "words_of_bytes (bytes_of_words ws) = ws"
  by (induction ws) (simp_all add: bytes_of_words_def words_of_bytes_append)

lemma length_bytes_of_words: "length (bytes_of_words ws) = 8 * length ws"
  by (induction ws) (simp_all add: bytes_of_words_def length_word_bytes)

lemma get_count: "(ucast (addr_meta off cnt AND 0xFF) :: 8 word) = cnt"
  unfolding addr_meta_def and_FF
  by (rule bit_word_eqI) (auto simp add: bit_simps dest: bit_imp_le_length)

lemma get_offset: "(ucast (drop_bit 8 (addr_meta off cnt)) :: 32 word) = signed_take_bit 23 off"
  unfolding addr_meta_def and_FF
  by (rule bit_word_eqI) (auto simp add: bit_simps min_def dest: bit_imp_le_length)

lemma offset_fits:
  "- 8388608 \<le> sint (off :: 32 word) \<Longrightarrow> sint off < 8388608 \<Longrightarrow> signed_take_bit 23 off = off"
proof -
  assume a: "- 8388608 \<le> sint off" and b: "sint off < 8388608"
  have "signed_take_bit 23 (sint off) = sint off"
    by (rule signed_take_bit_int_eq_self) (use a b in simp_all)
  then have "signed_take_bit 23 (word_of_int (sint off) :: 32 word) = word_of_int (sint off)"
    by (simp only: signed_take_bit_of_int)
  then show ?thesis by simp
qed

lemma units_nth:
  "i < length us \<Longrightarrow>
     concat (map unit_words us) ! (2 * i) = addr (us ! i)
     \<and> concat (map unit_words us) ! (2 * i + 1) = addr_meta (offset (us ! i)) (count_f (us ! i))"
proof (induction us arbitrary: i)
  case Nil
  then show ?case by simp
next
  case (Cons u us)
  show ?case
  proof (cases i)
    case 0
    then show ?thesis by (simp add: unit_words_def)
  next
    case (Suc j)
    with Cons.prems have "j < length us" by simp
    from Cons.IH [OF this] Suc show ?thesis by (simp add: unit_words_def)
  qed
qed

lemma length_units: "length (concat (map unit_words us)) = 2 * length us"
  by (induction us) (simp_all add: unit_words_def)

lemma pack_full:
  "length (addr_unit r) = unat (addr_len r) \<Longrightarrow>
   trace_pack M r = Some (header_words
           (RECORD_SET_INIT M (addr_len r) (type_f r) (smid r) (warp r)
              (ctaid_x r) (ctaid_y r) (ctaid_z r) (clock r) (size_f r))
         @ concat (map unit_words (addr_unit r)))"
proof -
  assume l: "length (addr_unit r) = unat (addr_len r)"
  have "map (\<lambda>i. unit_words (addr_unit r ! i)) [0..<length (addr_unit r)] = map unit_words (addr_unit r)"
    by (rule nth_equalityI) simp_all
  with l show ?thesis by (simp add: trace_pack_def)
qed


lemma header_of_words: "header_of (header_words h @ ws) = h"
  by (simp add: header_of_def header_words_def)

lemma unit_read_back:
  assumes i: "i < length us"
    and fit: "- 8388608 \<le> sint (offset (us ! i))" "sint (offset (us ! i)) < 8388608"
  shows "\<lparr>addr = RECORD_ADDR (header_words h @ concat (map unit_words us)) i,
          offset = RECORD_GET_OFFSET (header_words h @ concat (map unit_words us)) i,
          count_f = RECORD_GET_COUNT (header_words h @ concat (map unit_words us)) i\<rparr> = us ! i"
proof -
  let ?buf = "header_words h @ concat (map unit_words us)"
  have l: "length (header_words h) = 3" by (simp add: header_words_def)
  have a: "?buf ! (3 + 2 * i) = addr (us ! i)"
    using units_nth [OF i] by (simp add: nth_append l)
  have m: "?buf ! (3 + 2 * i + 1) = addr_meta (offset (us ! i)) (count_f (us ! i))"
    using units_nth [OF i] by (simp add: nth_append l)
  have o: "RECORD_GET_OFFSET ?buf i = offset (us ! i)"
    unfolding RECORD_GET_OFFSET_def RECORD_ADDR_META_def m get_offset
    using fit by (rule offset_fits)
  have c: "RECORD_GET_COUNT ?buf i = count_f (us ! i)"
    unfolding RECORD_GET_COUNT_def RECORD_ADDR_META_def m by (rule get_count)
  have "RECORD_ADDR ?buf i = addr (us ! i)"
    unfolding RECORD_ADDR_def by (rule a)
  with o c show ?thesis by simp
qed

lemma unpack_of_packed:
  assumes hk: "header_kept M r"
    and len: "length (addr_unit r) = unat (addr_len r)"
    and fit: "offsets_fit r"
  shows "trace_unpack M
           (header_words (RECORD_SET_INIT M (addr_len r) (type_f r) (smid r) (warp r)
              (ctaid_x r) (ctaid_y r) (ctaid_z r) (clock r) (size_f r))
            @ concat (map unit_words (addr_unit r))) dst
         = Some (r\<lparr>debug := debug dst\<rparr>)"
proof -
  let ?h = "RECORD_SET_INIT M (addr_len r) (type_f r) (smid r) (warp r)
              (ctaid_x r) (ctaid_y r) (ctaid_z r) (clock r) (size_f r)"
  let ?us = "addr_unit r"
  let ?buf = "header_words ?h @ concat (map unit_words ?us)"
  from hk have g: "RECORD_GET_ALEN M ?h = addr_len r" "RECORD_GET_TYPE M ?h = type_f r"
    "RECORD_GET_SMID M ?h = smid r" "RECORD_GET_WARP M ?h = warp r"
    "RECORD_GET_CTAX M ?h = ctaid_x r" "RECORD_GET_CTAY M ?h = ctaid_y r"
    "RECORD_GET_CTAZ M ?h = ctaid_z r" "RECORD_GET_CLOCK M ?h = clock r"
    "RECORD_GET_SIZE M ?h = size_f r"
    by (simp_all add: header_kept_def Let_def)
  have lb: "length ?buf = 3 + 2 * unat (addr_len r)"
    by (simp add: header_words_def length_units len)
  have us: "map (\<lambda>i. \<lparr>addr = RECORD_ADDR ?buf i, offset = RECORD_GET_OFFSET ?buf i,
                        count_f = RECORD_GET_COUNT ?buf i\<rparr>) [0..<unat (addr_len r)] = ?us"
  proof (rule nth_equalityI)
    show "length (map (\<lambda>i. \<lparr>addr = RECORD_ADDR ?buf i, offset = RECORD_GET_OFFSET ?buf i,
                        count_f = RECORD_GET_COUNT ?buf i\<rparr>) [0..<unat (addr_len r)]) = length ?us"
      by (simp add: len)
  next
    fix i
    assume "i < length (map (\<lambda>i. \<lparr>addr = RECORD_ADDR ?buf i, offset = RECORD_GET_OFFSET ?buf i,
                        count_f = RECORD_GET_COUNT ?buf i\<rparr>) [0..<unat (addr_len r)])"
    then have i: "i < length ?us" by (simp add: len)
    with fit have "- 8388608 \<le> sint (offset (?us ! i))" "sint (offset (?us ! i)) < 8388608"
      by (simp_all add: offsets_fit_def list_all_length)
    from unit_read_back [OF i this] i
    show "map (\<lambda>i. \<lparr>addr = RECORD_ADDR ?buf i, offset = RECORD_GET_OFFSET ?buf i,
                        count_f = RECORD_GET_COUNT ?buf i\<rparr>) [0..<unat (addr_len r)] ! i = ?us ! i"
      by (simp add: len)
  qed
  show ?thesis
    unfolding trace_unpack_def Let_def header_of_words g us
    using lb by simp
qed


section \<open>Packing and unpacking a record\<close>

text \<open>
  C1, as the code has it.  For a record that has exactly \<open>addr_len\<close> units, whose header
  fields the header macros keep and whose offsets lie in the signed 24-bit range,
  unpacking the packed form into a record \<open>dst\<close> restores every field but \<open>debug\<close>, which
  is not part of the wire form and stays as \<open>dst\<close> had it.
\<close>

theorem unpack_pack_wire_fields:
  "header_kept M r \<Longrightarrow> length (addr_unit r) = unat (addr_len r) \<Longrightarrow> offsets_fit r
   \<Longrightarrow> unpack_packed M r dst = Some (r\<lparr>debug := debug dst\<rparr>)"
  by (simp add: unpack_packed_def pack_full unpack_of_packed)

theorem unpack_pack_wire_fields_witness:
  "header_kept spec_macros rec3 \<and> length (addr_unit rec3) = unat (addr_len rec3)
   \<and> offsets_fit rec3
   \<and> unpack_packed spec_macros rec3 rec_dbg = Some (rec3\<lparr>debug := 9\<rparr>)"
proof -
  have h: "header_kept spec_macros rec3" by code_simp
  have l: "length (addr_unit rec3) = unat (addr_len rec3)" by code_simp
  have f: "offsets_fit rec3" by code_simp
  have d: "debug rec_dbg = 9" by (simp add: rec_dbg_def)
  show ?thesis
    using h l f unpack_pack_wire_fields [OF h l f, of rec_dbg] by (simp add: d)
qed

text \<open>
  C1 as stated fails twice: an offset of \<open>2 ^ 24\<close> comes back as 0 even when the record is
  unpacked over itself, and a record with \<open>debug = 9\<close> unpacked into one with \<open>debug = 0\<close>
  comes back with \<open>debug = 0\<close>.
\<close>

theorem unpack_pack_not_identity:
  "unpack_packed spec_macros rec_far rec_far \<noteq> Some rec_far
   \<and> header_kept spec_macros rec_far \<and> length (addr_unit rec_far) = unat (addr_len rec_far)
   \<and> unpack_packed spec_macros rec_dbg rec3 \<noteq> Some rec_dbg
   \<and> header_kept spec_macros rec_dbg \<and> offsets_fit rec_dbg"
  by code_simp

lemma push_bit_far: "push_bit 8 (off + 0x1000000 :: 32 word) = push_bit 8 off"
proof -
  have "push_bit 8 (0x1000000 :: 32 word) = 0" by simp
  then show ?thesis by (simp only: push_bit_add) simp
qed

lemma addr_meta_far: "addr_meta (off + 0x1000000) cnt = addr_meta off cnt"
  by (simp only: addr_meta_def push_bit_far)

text \<open>
  Whatever the header macros and the getters are, two records that differ in bit 24 of an
  offset have the same packed form, so no unpacking can tell them apart.
\<close>

lemma pack_forgets_high_offset_bits:
  "trace_pack M (r\<lparr>addr_unit := [\<lparr>addr = a, offset = off + 0x1000000, count_f = c\<rparr>]\<rparr>)
   = trace_pack M (r\<lparr>addr_unit := [\<lparr>addr = a, offset = off, count_f = c\<rparr>]\<rparr>)"
proof (cases "unat (addr_len r) \<le> 1")
  case False
  then show ?thesis by (simp add: trace_pack_def)
next
  case True
  then have "unat (addr_len r) = 0 \<or> unat (addr_len r) = 1" by arith
  then show ?thesis
    by (auto simp: trace_pack_def unit_words_def addr_meta_far)
qed

section \<open>Shard selection and counter placement\<close>

lemma slot_mod: "unat (slot s) = unat s mod SLOTS_NUM"
proof -
  have "slot s = take_bit 2 s"
    by (simp add: slot_def SLOTS_NUM_def take_bit_eq_mask mask_eq_exp_minus_1)
  then show ?thesis
    by (simp add: SLOTS_NUM_def take_bit_eq_mod unat_mod)
qed

lemma slot_less: "unat (slot s) < 4"
  by (simp add: slot_mod SLOTS_NUM_def)

lemma sint_small: "unat (w :: 32 word) < 2 ^ 31 \<Longrightarrow> sint w = int (unat w)"
proof -
  assume a: "unat w < 2 ^ 31"
  have u: "uint w = int (unat w)" by simp
  from a have "int (unat w) < int (2 ^ 31)" by (simp only: of_nat_less_iff)
  then have lt: "uint w < 2 ^ 31" unfolding u by simp
  have ge: "- (2 ^ 31) \<le> uint w" by (rule order_trans [of _ 0]) simp_all
  have "sint w = signed_take_bit 31 (uint w)" by (simp add: sint_uint)
  also have "\<dots> = uint w"
    using ge lt by (rule signed_take_bit_int_eq_self)
  finally show ?thesis by simp
qed

lemma base_i_sint: "sint (base_i s) = int (unat (slot s) * CACHELINE)"
proof -
  have lt: "unat (slot s) < 4" by (rule slot_less)
  have "unat (base_i s) = unat (slot s) * 64 mod 2 ^ 32"
    by (simp add: base_i_def CACHELINE_def unat_word_ariths)
  with lt have u: "unat (base_i s) = unat (slot s) * 64" by simp
  with lt have "unat (base_i s) < 2 ^ 31" by simp
  then have "sint (base_i s) = int (unat (base_i s))" by (rule sint_small)
  with u show ?thesis by (simp add: CACHELINE_def)
qed

lemma lines_differ:
  "x < 4 \<Longrightarrow> y < 4 \<Longrightarrow> x \<noteq> y
   \<Longrightarrow> cache_line (p + int (x * CACHELINE)) \<noteq> cache_line (p + int (y * CACHELINE))"
  by (simp add: cache_line_def CACHELINE_def)

text \<open>
  C8.  \<open>SLOTS_NUM\<close> is the power of two 4.  A producer running on processor \<open>smid\<close>
  uses shard \<open>smid mod SLOTS_NUM\<close>; its alloc and commit counters are at byte offset
  \<open>shard * CACHELINE\<close> from the bases of their arrays; two producers in different shards
  address counters in different cache lines.
\<close>

theorem shard_counters_separate:
  "SLOTS_NUM = 2 ^ 2
   \<and> unat (slot s) = unat s mod SLOTS_NUM
   \<and> allocs a s = a + int (unat (slot s) * CACHELINE)
   \<and> commits c s = c + int (unat (slot s) * CACHELINE)
   \<and> (slot s \<noteq> slot s' \<longrightarrow>
        cache_line (allocs a s) \<noteq> cache_line (allocs a s')
        \<and> cache_line (commits c s) \<noteq> cache_line (commits c s'))"
proof -
  have al: "allocs a t = a + int (unat (slot t) * CACHELINE)" for t
    by (simp only: allocs_def gep_i8_def base_i_sint)
  have co: "commits c t = c + int (unat (slot t) * CACHELINE)" for t
    by (simp only: commits_def gep_i8_def base_i_sint)
  have ne: "cache_line (p + int (unat (slot s) * CACHELINE))
            \<noteq> cache_line (p + int (unat (slot s') * CACHELINE))"
    if d: "slot s \<noteq> slot s'" for p
  proof -
    from d have "unat (slot s) \<noteq> unat (slot s')" by (simp add: word_unat_eq_iff)
    then show ?thesis by (intro lines_differ slot_less)
  qed
  have p: "SLOTS_NUM = 2 ^ 2" by (simp add: SLOTS_NUM_def)
  show ?thesis
    unfolding al co using ne slot_mod p by blast
qed

theorem shard_counters_separate_witness:
  "SLOTS_NUM = 2 ^ 2
   \<and> unat (slot 5) = 5 mod SLOTS_NUM
   \<and> allocs 4096 5 = 4096 + 64
   \<and> commits 8192 5 = 8192 + 64
   \<and> slot 5 \<noteq> slot 6
   \<and> cache_line (allocs 4096 5) \<noteq> cache_line (allocs 4096 6)
   \<and> cache_line (commits 8192 5) \<noteq> cache_line (commits 8192 6)"
proof -
  have d: "slot 5 \<noteq> slot 6"
    by (simp add: slot_def SLOTS_NUM_def)
  have u: "unat (slot 5) = 1"
    by (simp add: slot_def SLOTS_NUM_def)
  have n: "unat (5 :: 32 word) = 5" by simp
  from shard_counters_separate [of 5 4096 8192 6] d show ?thesis
    unfolding u n by (auto simp: CACHELINE_def)
qed

section \<open>The coordinate identifier built by the device pass\<close>

lemma ctaid_serialized_is_z: "ctaid_serialized x y z = ucast z AND 0xFFFF"
proof -
  have x0: "drop_bit 32 (ucast x :: 64 word) = 0"
    by (rule bit_word_eqI) (auto simp: bit_simps dest: bit_imp_le_length)
  have y0: "drop_bit 16 ((ucast y :: 64 word) AND 0xFFFF) = 0"
  proof -
    have "(ucast y :: 64 word) AND 0xFFFF = take_bit 16 (ucast y)"
      by (simp add: take_bit_eq_mask mask_eq_exp_minus_1)
    then show ?thesis
      by (simp only: drop_bit_take_bit) simp
  qed
  show ?thesis
    by (simp only: ctaid_serialized_def Let_def x0 y0) simp
qed

text \<open>
  C2.  At the coordinate \<open>(1, 0, 0)\<close> the identifier built by the device pass is 0, while
  \<open>(x << 32) | (y << 16) | z\<close>, which \<open>ParseArgs\<close> computes, is \<open>2 ^ 32\<close>.
\<close>

theorem device_ctaid_loses_x:
  "ctaid_serialized 1 0 0 = 0 \<and> ctaid_conv 1 0 0 = 0x100000000"
  by (simp add: ctaid_serialized_is_z ctaid_conv_def)

section \<open>Opening a trace\<close>

lemma length_v2: "length v2 = 10" by (simp add: v2_def)
lemma length_v3: "length v3 = 10" by (simp add: v3_def)
lemma v2_neq_v3: "v2 \<noteq> v3" by (simp add: v2_def v3_def)

text \<open>
  C5.  \<open>trace_open\<close> returns a stream exactly when the first ten bytes of the source are
  \<open>v2\<close> or \<open>v3\<close>; the stream has version 2 for \<open>v2\<close> and version 3 for \<open>v3\<close>, and starts
  after the ten bytes.  A source shorter than ten bytes gives no stream.
\<close>

theorem trace_open_magic:
  "(fst (trace_open f mem err) \<noteq> None \<longleftrightarrow> take 10 f = v2 \<or> take 10 f = v3)
   \<and> (take 10 f = v2 \<longrightarrow>
        fst (trace_open f mem err)
          = Some (mem\<lparr>file_f := drop 10 f, version := 2, kernel_name := None, new_kernel := 0\<rparr>))
   \<and> (take 10 f = v3 \<longrightarrow>
        fst (trace_open f mem err)
          = Some (mem\<lparr>file_f := drop 10 f, version := 3, kernel_name := None, new_kernel := 0\<rparr>))
   \<and> (length f < 10 \<longrightarrow> trace_open f mem err = (None, Some ''unable to read version''))"
proof (cases "length f < 10")
  case True
  then have "take 10 f \<noteq> v2" "take 10 f \<noteq> v3"
    using length_v2 length_v3 by (metis length_take min.absorb1 less_imp_le nat_less_le)+
  with True show ?thesis
    by (simp add: trace_open_def fread1_def)
next
  case False
  then show ?thesis
    using v2_neq_v3 by (auto simp: trace_open_def fread1_def)
qed

theorem trace_open_magic_witness:
  "take 10 (v3 @ [7]) = v3
   \<and> fst (trace_open (v3 @ [7]) mem0 None) \<noteq> None
   \<and> fst (trace_open (v3 @ [7]) mem0 None)
       = Some (mem0\<lparr>file_f := drop 10 (v3 @ [7]), version := 3, kernel_name := None,
                    new_kernel := 0\<rparr>)
   \<and> take 10 (v2 @ [7]) = v2
   \<and> fst (trace_open (v2 @ [7]) mem0 None)
       = Some (mem0\<lparr>file_f := drop 10 (v2 @ [7]), version := 2, kernel_name := None,
                    new_kernel := 0\<rparr>)
   \<and> length (take 9 v3) < 10
   \<and> trace_open (take 9 v3) mem0 None = (None, Some ''unable to read version'')"
proof -
  have a: "take 10 (v3 @ [7]) = v3" by (simp add: v3_def)
  have b: "take 10 (v2 @ [7]) = v2" by (simp add: v2_def)
  have c: "length (take 9 v3) < 10" by (simp add: v3_def)
  show ?thesis
    using a b c
      trace_open_magic [of "v3 @ [7]" mem0 None]
      trace_open_magic [of "v2 @ [7]" mem0 None]
      trace_open_magic [of "take 9 v3" mem0 None]
    by simp
qed

section \<open>Writing the header\<close>

text \<open>
  C9.  For a version other than 2 and 3, \<open>trace_write_header\<close> returns 1, sets
  \<open>trace_last_error\<close> to "invalid version" and leaves the stream as it was.
\<close>

theorem trace_write_header_invalid:
  "ver \<noteq> 2 \<Longrightarrow> ver \<noteq> 3
   \<Longrightarrow> trace_write_header f ver = (1, f, Some ''invalid version'')"
  by (simp add: trace_write_header_def)

theorem trace_write_header_invalid_witness:
  "(4 :: 32 word) \<noteq> 2 \<and> (4 :: 32 word) \<noteq> 3
   \<and> trace_write_header \<lparr>written = [1, 2], room = 100\<rparr> 4
       = (1, \<lparr>written = [1, 2], room = 100\<rparr>, Some ''invalid version'')"
  using trace_write_header_invalid [of 4 "\<lparr>written = [1, 2], room = 100\<rparr>"] by simp

section \<open>Kernel frames\<close>

lemma kh_tag: "(ucast (drop_bit 56 (kernel_header nl bsz) AND 0xFF) :: byte) = 0"
  unfolding kernel_header_def and_FF
  by (rule bit_word_eqI) (auto simp add: bit_simps dest: bit_imp_le_length)

lemma kh_len: "(ucast (drop_bit 48 (kernel_header nl bsz) AND 0xFF) :: byte) = nl"
  unfolding kernel_header_def and_FF
  by (rule bit_word_eqI) (auto simp add: bit_simps dest: bit_imp_le_length)

lemma kh_bsz: "(ucast (drop_bit 32 (kernel_header nl bsz) AND 0xFFFF) :: 16 word) = bsz"
  unfolding kernel_header_def and_FFFF
  by (rule bit_word_eqI) (auto simp add: bit_simps dest: bit_imp_le_length)

lemma kernel_header_bytes:
  "word_bytes (kernel_header nl bsz) = [0, 0, 0, 0, ucast bsz, ucast (drop_bit 8 bsz), nl, 0]"
proof -
  have z: "(ucast (kernel_header nl bsz) :: byte) = 0"
    "(ucast (drop_bit 8 (kernel_header nl bsz)) :: byte) = 0"
    "(ucast (drop_bit 16 (kernel_header nl bsz)) :: byte) = 0"
    "(ucast (drop_bit 24 (kernel_header nl bsz)) :: byte) = 0"
    "(ucast (drop_bit 56 (kernel_header nl bsz)) :: byte) = 0"
    unfolding kernel_header_def
    by (rule bit_word_eqI; auto simp add: bit_simps dest: bit_imp_le_length)+
  have b: "(ucast (drop_bit 32 (kernel_header nl bsz)) :: byte) = ucast bsz"
    "(ucast (drop_bit 40 (kernel_header nl bsz)) :: byte) = ucast (drop_bit 8 bsz)"
    "(ucast (drop_bit 48 (kernel_header nl bsz)) :: byte) = nl"
    unfolding kernel_header_def
    by (rule bit_word_eqI; auto simp add: bit_simps ac_simps dest: bit_imp_le_length)+
  show ?thesis
    by (simp only: word_bytes_expl z b)
qed

lemma fread1_prefix: "0 < length a \<Longrightarrow> fread1 (length a) (a @ rest) = (1, a, rest)"
  by (simp add: fread1_def)

lemma fread1_short: "length f < sz \<Longrightarrow> fread1 sz f = (0, f, [])"
  by (simp add: fread1_def)

lemma byte_of_length: "n \<le> 255 \<Longrightarrow> unat (of_nat n :: byte) = n"
  by (simp add: unat_of_nat)

lemma name_len_byte: "(ucast ((of_nat n :: 64 word) AND 0xFF) :: byte) = of_nat n"
  unfolding and_FF
  by (rule bit_word_eqI) (auto simp: bit_simps)

lemma c_string_id: "0 \<notin> set name \<Longrightarrow> c_string name = name"
  by (simp add: c_string_def takeWhile_eq_all_conv) metis

lemma trace_write_kernel_ok:
  assumes k0: "0 < length name mod 256" and rm: "8 + length name mod 256 \<le> room f"
  shows "trace_write_kernel f name bsz
         = (0, f\<lparr>written := written f @ word_bytes (kernel_header (of_nat (length name mod 256)) bsz)
                              @ take (length name mod 256) name,
                   room := room f - (8 + length name mod 256)\<rparr>, None)"
proof -
  let ?k = "length name mod 256"
  have nl: "(ucast ((of_nat (length name) :: 64 word) AND 0xFF) :: byte) = of_nat ?k"
    unfolding name_len_byte
    by (simp add: word_of_nat_eq_iff take_bit_eq_mod)
  have u: "unat (of_nat ?k :: byte) = ?k" by (simp add: unat_of_nat)
  have kl: "?k \<le> length name" by simp
  show ?thesis
    using k0 rm kl
    by (simp add: trace_write_kernel_def Let_def nl u fwrite1_def length_word_bytes)
qed


lemma trace_next_kernel:
  assumes n0: "0 < length name" and n255: "length name \<le> 255"
  shows "trace_next M (t\<lparr>file_f := word_bytes (kernel_header (of_nat (length name)) bsz) @ name @ rest\<rparr>)
         = Some (0, t\<lparr>file_f := rest, kernel_name := Some (c_string name), new_kernel := 1, block_size := bsz\<rparr>, None)"
proof -
  let ?h = "kernel_header (of_nat (length name)) bsz"
  have r8: "fread1 8 (word_bytes ?h @ name @ rest) = (1, word_bytes ?h, name @ rest)"
    using fread1_prefix [of "word_bytes ?h" "name @ rest"] by (simp add: length_word_bytes)
  have u: "unat (of_nat (length name) :: byte) = length name"
    using n255 by (rule byte_of_length)
  have rn: "fread1 (length name) (name @ rest) = (1, name, rest)"
    using n0 by (rule fread1_prefix)
  show ?thesis
    by (simp add: trace_next_def r8 bytes_word_bytes kh_tag kh_len kh_bsz u rn)
qed



lemma trace_next_kernel':
  assumes f: "file_f t = word_bytes (kernel_header (of_nat (length name)) bsz) @ name @ rest"
    and n0: "0 < length name" and n255: "length name \<le> 255"
  shows "trace_next M t
         = Some (0, t\<lparr>file_f := rest, kernel_name := Some (c_string name), new_kernel := 1,
                       block_size := bsz\<rparr>, None)"
proof -
  have "t = t\<lparr>file_f := word_bytes (kernel_header (of_nat (length name)) bsz) @ name @ rest\<rparr>"
    using f by simp
  then show ?thesis
    using trace_next_kernel [OF n0 n255, where M = M and t = t and bsz = bsz and rest = rest]
    by simp
qed

text \<open>
  C10.  With an empty name \<open>trace_write_kernel\<close> returns 1 with \<open>trace_last_error\<close> set to
  "write error", whatever the stream; when the stream has room for the 8-byte frame header,
  that header (name length 0, the block size) has been appended to it.
\<close>

theorem trace_write_kernel_empty_name:
  "fst (trace_write_kernel f [] bsz) = 1
   \<and> snd (snd (trace_write_kernel f [] bsz)) = Some ''write error''
   \<and> (8 \<le> room f \<longrightarrow>
        written (fst (snd (trace_write_kernel f [] bsz)))
          = written f @ word_bytes (kernel_header 0 bsz))"
  by (simp add: trace_write_kernel_def Let_def fwrite1_def length_word_bytes)

theorem trace_write_kernel_empty_name_witness:
  "fst (trace_write_kernel \<lparr>written = v3, room = 100\<rparr> [] 32) = 1
   \<and> snd (snd (trace_write_kernel \<lparr>written = v3, room = 100\<rparr> [] 32)) = Some ''write error''
   \<and> 8 \<le> room \<lparr>written = v3, room = 100\<rparr>
   \<and> written (fst (snd (trace_write_kernel \<lparr>written = v3, room = 100\<rparr> [] 32)))
       = v3 @ [0, 0, 0, 0, 32, 0, 0, 0]"
proof -
  have h: "word_bytes (kernel_header 0 32) = [0, 0, 0, 0, 32, 0, 0, 0]"
    by (simp add: word_bytes_def kernel_header_def upt_rec [of _ 8] drop_bit_eq_div)
  show ?thesis
    using trace_write_kernel_empty_name [of "\<lparr>written = v3, room = 100\<rparr>" 32]
    by (simp add: h)
qed

text \<open>
  C4.  With the empty name, which is within the bound of 255 bytes, the writer emits the
  8-byte header and reports a write error, and reading the 8 bytes back yields no kernel
  frame but the error "unable to read kernel name length".
\<close>

theorem empty_kernel_name_not_read_back:
  "trace_write_kernel \<lparr>written = v3, room = 100\<rparr> [] 32
     = (1, \<lparr>written = v3 @ [0, 0, 0, 0, 32, 0, 0, 0], room = 92\<rparr>, Some ''write error'')
   \<and> reopen_and_read spec_macros mem0 1 (v3 @ [0, 0, 0, 0, 32, 0, 0, 0])
     = Some (3, [], Failed ''unable to read kernel name length'')"
  by code_simp

text \<open>
  A name of 1 to 255 bytes is written as the 8-byte header (four zero bytes, the block
  size, the length, a zero tag) followed by the name without terminator, and \<open>trace_next\<close>
  reads name and block size back.
\<close>

lemma kernel_frame_roundtrip:
  assumes n0: "0 < length name" and n255: "length name \<le> 255" and z: "0 \<notin> set name"
    and rm: "8 + length name \<le> room f"
  shows "trace_write_kernel f name bsz
         = (0, f\<lparr>written := written f @ [0, 0, 0, 0, ucast bsz, ucast (drop_bit 8 bsz),
                                             of_nat (length name), 0] @ name,
                   room := room f - (8 + length name)\<rparr>, None)"
    and "file_f t = [0, 0, 0, 0, ucast bsz, ucast (drop_bit 8 bsz), of_nat (length name), 0]
                    @ name @ rest
         \<Longrightarrow> trace_next M t
             = Some (0, t\<lparr>file_f := rest, kernel_name := Some name, new_kernel := 1,
                           block_size := bsz\<rparr>, None)"
proof -
  from n255 have m: "length name mod 256 = length name" by simp
  show "trace_write_kernel f name bsz
         = (0, f\<lparr>written := written f @ [0, 0, 0, 0, ucast bsz, ucast (drop_bit 8 bsz),
                                             of_nat (length name), 0] @ name,
                   room := room f - (8 + length name)\<rparr>, None)"
    using trace_write_kernel_ok [where name = name and f = f and bsz = bsz] n0 rm
    by (simp only: m kernel_header_bytes take_all [OF order_refl])
next
  assume "file_f t = [0, 0, 0, 0, ucast bsz, ucast (drop_bit 8 bsz), of_nat (length name), 0]
                    @ name @ rest"
  then have "file_f t = word_bytes (kernel_header (of_nat (length name)) bsz) @ name @ rest"
    by (simp only: kernel_header_bytes)
  from trace_next_kernel' [OF this n0 n255] show "trace_next M t
             = Some (0, t\<lparr>file_f := rest, kernel_name := Some name, new_kernel := 1,
                           block_size := bsz\<rparr>, None)"
    by (simp only: c_string_id [OF z])
qed

lemma name_len_mod:
  "(ucast ((of_nat n :: 64 word) AND 0xFF) :: byte) = of_nat (n mod 256)
   \<and> unat (of_nat (n mod 256) :: byte) = n mod 256"
  unfolding name_len_byte
  by (simp add: word_of_nat_eq_iff take_bit_eq_mod unat_of_nat)

lemma trace_write_kernel_bytes:
  fixes L :: byte
  assumes nl: "(ucast ((of_nat (length name) :: 64 word) AND 0xFF) :: byte) = L"
    and kl: "unat L \<le> length name" and hl: "length hdr = 8"
    and h: "word_bytes (kernel_header L bsz) = hdr"
  shows "written (fst (snd (trace_write_kernel f name bsz)))
           = written f @ take (room f) (hdr @ take (unat L) name)
         \<and> (fst (trace_write_kernel f name bsz) = 0 \<longleftrightarrow> 0 < unat L \<and> 8 + unat L \<le> room f)"
  using kl hl
  by (auto simp: trace_write_kernel_def Let_def nl h fwrite1_def min_def)

text \<open>
  A name whose length is a multiple of 256, the empty name among them, gets the length
  field 0 and the call reports a write error.
\<close>

lemma name_of_multiple_of_256_rejected:
  assumes "length name mod 256 = 0"
  shows "fst (trace_write_kernel f name bsz) = 1
         \<and> snd (snd (trace_write_kernel f name bsz)) = Some ''write error''"
  using assms
  by (simp add: trace_write_kernel_def Let_def name_len_mod fwrite1_def)

text \<open>
  C7, as the code has it.  \<open>trace_write_kernel\<close> has no overflow handling and never splits a
  name.  For a name of any length, what it appends to the stream is, as far as the stream
  has room, one 8-byte header with an 8-bit length field \<open>L\<close> and the block size, followed
  by the first \<open>L\<close> bytes of the name; \<open>L\<close> is at most 255 and, for a name of at most 255
  bytes, \<open>L\<close> is the length of the name.  The call returns 0 exactly when \<open>L\<close> is not 0 and
  the stream has room for the whole frame.  So a name longer than 255 bytes is cut to a
  prefix of at most 255 bytes, in a single frame; which prefix is left open.
\<close>

theorem kernel_name_one_frame:
  "\<exists>L :: byte.
     unat L \<le> 255
     \<and> (length name \<le> 255 \<longrightarrow> unat L = length name)
     \<and> written (fst (snd (trace_write_kernel f name bsz)))
         = written f @ take (room f)
             ([0, 0, 0, 0, ucast bsz, ucast (drop_bit 8 bsz), L, 0] @ take (unat L) name)
     \<and> (fst (trace_write_kernel f name bsz) = 0 \<longleftrightarrow> 0 < unat L \<and> 8 + unat L \<le> room f)"
proof -
  let ?L = "of_nat (length name mod 256) :: byte"
  have u: "unat ?L = length name mod 256" by (simp add: name_len_mod)
  have nl: "(ucast ((of_nat (length name) :: 64 word) AND 0xFF) :: byte) = ?L"
    by (simp add: name_len_mod)
  have kl: "unat ?L \<le> length name" unfolding u by simp
  have b: "unat ?L \<le> 255" unfolding u by simp
  have i: "length name \<le> 255 \<longrightarrow> unat ?L = length name" unfolding u by simp
  have hl: "length [0, 0, 0, 0, ucast bsz, ucast (drop_bit 8 bsz), ?L, 0 :: byte] = 8" by simp
  from trace_write_kernel_bytes [OF nl kl hl kernel_header_bytes, of f] b i
  show ?thesis by blast
qed

theorem kernel_name_one_frame_witness:
  "length [0x6B, 0x6C :: byte] \<le> 255
   \<and> fst (trace_write_kernel \<lparr>written = v3, room = 50\<rparr> [0x6B, 0x6C] 32) = 0
   \<and> (\<exists>L :: byte. unat L = 2
        \<and> written (fst (snd (trace_write_kernel \<lparr>written = v3, room = 50\<rparr> [0x6B, 0x6C] 32)))
            = v3 @ [0, 0, 0, 0, 32, 0, L, 0, 0x6B, 0x6C]
        \<and> 8 + unat L \<le> 50)"
proof -
  have a: "length [0x6B, 0x6C :: byte] \<le> 255" by simp
  have b: "fst (trace_write_kernel \<lparr>written = v3, room = 50\<rparr> [0x6B, 0x6C] 32) = 0"
    by code_simp
  from kernel_name_one_frame [of "[0x6B, 0x6C]" "\<lparr>written = v3, room = 50\<rparr>" 32]
  obtain L :: byte where
    L: "length [0x6B, 0x6C :: byte] \<le> 255 \<longrightarrow> unat L = length [0x6B, 0x6C :: byte]"
    "written (fst (snd (trace_write_kernel \<lparr>written = v3, room = 50\<rparr> [0x6B, 0x6C] 32)))
       = written \<lparr>written = v3, room = 50\<rparr> @ take (room \<lparr>written = v3, room = 50\<rparr>)
           ([0, 0, 0, 0, ucast (32 :: 16 word), ucast (drop_bit 8 (32 :: 16 word)), L, 0]
            @ take (unat L) [0x6B, 0x6C])"
    "fst (trace_write_kernel \<lparr>written = v3, room = 50\<rparr> [0x6B, 0x6C] 32) = 0
       \<longleftrightarrow> 0 < unat L \<and> 8 + unat L \<le> room \<lparr>written = v3, room = 50\<rparr>"
    by blast
  from L(1) a have u: "unat L = 2" by simp
  from L(3) b have r: "8 + unat L \<le> 50" by simp
  have w: "written (fst (snd (trace_write_kernel \<lparr>written = v3, room = 50\<rparr> [0x6B, 0x6C] 32)))
            = v3 @ [0, 0, 0, 0, 32, 0, L, 0, 0x6B, 0x6C]"
    unfolding L(2) u by (simp add: drop_bit_eq_div)
  from a b u w r show ?thesis by blast
qed

text \<open>
  C7 as stated fails: for a name of 257 bytes the call returns 0 after writing a single
  frame that carries one byte of the name; nothing else is emitted.
\<close>

theorem long_kernel_name_not_rejected:
  "trace_write_kernel \<lparr>written = [], room = 1000\<rparr> (replicate 257 0x41) 7
     = (0, \<lparr>written = [0, 0, 0, 0, 7, 0, 1, 0, 0x41], room = 991\<rparr>, None)"
  by code_simp

section \<open>Records in a stream\<close>

lemma trace_next_short:
  "length (file_f t) < 8 \<Longrightarrow> trace_next M t = Some (1, t\<lparr>file_f := []\<rparr>, None)"
  by (simp add: trace_next_def fread1_short)


lemma trace_next_record:
  assumes hk: "header_kept M r" and tk: "tag_kept M r"
    and len: "length (addr_unit r) = unat (addr_len r)"
    and fit: "offsets_fit r"
    and n0: "addr_len r \<noteq> 0" and n32: "unat (addr_len r) \<le> 32"
    and pk: "trace_pack M r = Some buf"
  shows "trace_next M (t\<lparr>file_f := bytes_of_words buf @ rest\<rparr>)
         = Some (0, t\<lparr>file_f := rest, new_kernel := 0,
                       cur_record := r\<lparr>debug := debug (cur_record t)\<rparr>\<rparr>, None)"
proof -
  let ?h = "RECORD_SET_INIT M (addr_len r) (type_f r) (smid r) (warp r)
              (ctaid_x r) (ctaid_y r) (ctaid_z r) (clock r) (size_f r)"
  let ?n = "unat (addr_len r)"
  let ?tl = "addr_w ?h # cta ?h # concat (map unit_words (addr_unit r))"
  from pk have buf: "buf = header_words ?h @ concat (map unit_words (addr_unit r))"
    by (simp add: pack_full [OF len])
  then have b2: "buf = desc ?h # ?tl" by (simp add: header_words_def)
  have bw: "bytes_of_words buf = word_bytes (desc ?h) @ bytes_of_words ?tl"
    by (simp add: b2 bytes_of_words_def)
  have ltl: "length (bytes_of_words ?tl) = 16 + 16 * ?n"
    by (simp add: length_bytes_of_words length_units len)
  have r8: "fread1 8 (bytes_of_words buf @ rest) = (1, word_bytes (desc ?h), bytes_of_words ?tl @ rest)"
    using fread1_prefix [of "word_bytes (desc ?h)" "bytes_of_words ?tl @ rest"]
    by (simp add: bw length_word_bytes)
  from tk have ch: "(ucast (drop_bit 56 (desc ?h) AND 0xFF) :: byte) = addr_len r"
    by (simp add: tag_kept_def)
  have sz: "RECORD_RAW_SIZE ?n - 8 = length (bytes_of_words ?tl)"
    unfolding ltl RECORD_RAW_SIZE_def by simp
  have "0 < length (bytes_of_words ?tl)" unfolding ltl by simp
  then have rb: "fread1 (RECORD_RAW_SIZE ?n - 8) (bytes_of_words ?tl @ rest)
                 = (1, bytes_of_words ?tl, rest)"
    unfolding sz by (rule fread1_prefix)
  have cap: "\<not> 8 * (TRACE_RECORD_SIZE 32 div 8 + 1) < 8 + length (bytes_of_words ?tl)"
    unfolding ltl TRACE_RECORD_SIZE_def using n32 by simp
  have wb: "words_of_bytes (word_bytes (desc ?h) @ bytes_of_words ?tl) = buf"
    by (simp only: bw [symmetric] words_of_bytes_of_words)
  have un: "trace_unpack M buf (cur_record t) = Some (r\<lparr>debug := debug (cur_record t)\<rparr>)"
    unfolding buf by (rule unpack_of_packed [OF hk len fit])
  show ?thesis
    unfolding trace_next_def using n32
    by (simp add: r8 bytes_word_bytes ch n0 rb ltl TRACE_RECORD_SIZE_def wb un Let_def
          del: append.simps)
qed


lemma trace_next_record':
  assumes f: "file_f t = bytes_of_words buf @ rest"
    and hk: "header_kept M r" and tk: "tag_kept M r"
    and len: "length (addr_unit r) = unat (addr_len r)"
    and fit: "offsets_fit r"
    and n0: "addr_len r \<noteq> 0" and n32: "unat (addr_len r) \<le> 32"
    and pk: "trace_pack M r = Some buf"
  shows "trace_next M t
         = Some (0, t\<lparr>file_f := rest, new_kernel := 0,
                       cur_record := r\<lparr>debug := debug (cur_record t)\<rparr>\<rparr>, None)"
proof -
  have "t = t\<lparr>file_f := bytes_of_words buf @ rest\<rparr>"
    using f by simp
  then show ?thesis
    using trace_next_record [OF hk tk len fit n0 n32 pk, where t = t and rest = rest] by simp
qed


lemma trace_write_header_ok:
  "10 \<le> room f \<Longrightarrow>
   trace_write_header f 3 = (0, f\<lparr>written := written f @ v3, room := room f - 10\<rparr>, None)"
  by (simp add: trace_write_header_def fwrite1_def length_v3)


lemma trace_write_record_ok:
  assumes len: "length (addr_unit r) = unat (addr_len r)"
    and n32: "unat (addr_len r) \<le> 32"
    and pk: "trace_pack M r = Some buf"
    and rm: "24 + 16 * unat (addr_len r) \<le> room f"
  shows "trace_write_record M f r err
         = Some (0, f\<lparr>written := written f @ bytes_of_words buf,
                        room := room f - (24 + 16 * unat (addr_len r))\<rparr>, err)"
proof -
  from pk have buf: "buf = header_words
           (RECORD_SET_INIT M (addr_len r) (type_f r) (smid r) (warp r)
              (ctaid_x r) (ctaid_y r) (ctaid_z r) (clock r) (size_f r)) @ concat (map unit_words (addr_unit r))"
    by (simp add: pack_full [OF len])
  have lb: "length (bytes_of_words buf) = 24 + 16 * unat (addr_len r)"
    by (simp add: buf length_bytes_of_words header_words_def length_units len)
  show ?thesis
    using n32 rm
    by (simp add: trace_write_record_def TRACE_RECORD_SIZE_def RECORD_RAW_SIZE_def pk fwrite1_def lb)
qed

lemma trace_open_v3:
  "trace_open (v3 @ rest) mem err
   = (Some (mem\<lparr>file_f := rest, version := 3, kernel_name := None, new_kernel := 0\<rparr>), err)"
proof -
  have "fread1 10 (v3 @ rest) = (1, v3, rest)"
    using fread1_prefix [of v3 rest] by (simp add: length_v3)
  then show ?thesis
    using v2_neq_v3 by (simp add: trace_open_def)
qed

text \<open>
  C3, as the code has it.  For a record with three address units, whose header fields the
  header macros keep (with the unit count in the tag byte) and whose offsets lie in the
  signed 24-bit range: writing a version-3 header, the kernel frame "k" with block size
  32 and the record to an empty file with room for the 91 bytes, and reopening what was
  written, gives version 3, the kernel frame "k" with block size 32, one record equal to
  the written one in every field but \<open>debug\<close> (which is what the stream's block of memory
  held), and then end-of-file.
\<close>

theorem kernel_record_session:
  assumes hk: "header_kept M r" and tk: "tag_kept M r"
    and a3: "addr_len r = 3" and l3: "length (addr_unit r) = 3"
    and fit: "offsets_fit r" and sp: "91 \<le> space"
  shows "Option.bind (write_kernel_record M space [0x6B] 32 r) (reopen_and_read M mem 3)
         = Some (3, [Kernel (Some [0x6B]) 32, Record (r\<lparr>debug := debug (cur_record mem)\<rparr>)], Eof)"
proof -
  let ?buf = "header_words (RECORD_SET_INIT M (addr_len r) (type_f r) (smid r) (warp r)
              (ctaid_x r) (ctaid_y r) (ctaid_z r) (clock r) (size_f r))
            @ concat (map unit_words (addr_unit r))"
  let ?kh = "word_bytes (kernel_header 1 32)"
  let ?bs = "bytes_of_words ?buf"
  have len: "length (addr_unit r) = unat (addr_len r)" by (simp add: a3 l3)
  have n0: "addr_len r \<noteq> 0" by (simp add: a3)
  have n32: "unat (addr_len r) \<le> 32" by (simp add: a3)
  have pk: "trace_pack M r = Some ?buf" by (rule pack_full [OF len])
  have w1: "trace_write_header \<lparr>written = [], room = space\<rparr> 3
            = (0, \<lparr>written = v3, room = space - 10\<rparr>, None)"
    using sp by (simp add: trace_write_header_ok)
  have w2: "trace_write_kernel \<lparr>written = v3, room = space - 10\<rparr> [0x6B] 32
            = (0, \<lparr>written = v3 @ ?kh @ [0x6B], room = space - 19\<rparr>, None)"
    using sp by (simp add: trace_write_kernel_ok)
  have w3: "trace_write_record M \<lparr>written = v3 @ ?kh @ [0x6B], room = space - 19\<rparr> r None
            = Some (0, \<lparr>written = v3 @ ?kh @ 0x6B # ?bs, room = space - 91\<rparr>, None)"
    using sp trace_write_record_ok [OF len n32 pk,
        where f = "\<lparr>written = v3 @ ?kh @ [0x6B], room = space - 19\<rparr>" and err = None]
    by (simp add: a3)
  have w: "write_kernel_record M space [0x6B] 32 r = Some (v3 @ ?kh @ 0x6B # ?bs)"
    by (simp add: write_kernel_record_def w1 w2 w3)
  define t0 where "t0 = mem\<lparr>file_f := ?kh @ 0x6B # ?bs, version := 3, kernel_name := None,
                   new_kernel := 0\<rparr>"
  define t1 where "t1 = t0\<lparr>file_f := ?bs, kernel_name := Some (c_string [0x6B]),
                   new_kernel := 1, block_size := 32\<rparr>"
  define t2 where "t2 = t1\<lparr>file_f := [], new_kernel := 0,
                   cur_record := r\<lparr>debug := debug (cur_record t1)\<rparr>\<rparr>"
  have o: "trace_open (v3 @ ?kh @ 0x6B # ?bs) mem None = (Some t0, None)"
    unfolding t0_def by (rule trace_open_v3)
  have n1: "trace_next M t0 = Some (0, t1, None)"
    unfolding t1_def
    by (rule trace_next_kernel' [where name = "[0x6B]", simplified]) (simp add: t0_def)
  have n2: "trace_next M t1 = Some (0, t2, None)"
    unfolding t2_def
    by (rule trace_next_record' [OF _ hk tk len fit n0 n32 pk]) (simp add: t1_def)
  have n3: "trace_next M t2 = Some (1, t2\<lparr>file_f := []\<rparr>, None)"
    by (rule trace_next_short) (simp add: t2_def)
  have f1: "frame_of t1 = Kernel (Some [0x6B]) 32"
    by (simp add: frame_of_def t1_def c_string_def)
  have f2: "frame_of t2 = Record (r\<lparr>debug := debug (cur_record mem)\<rparr>)"
    by (simp add: frame_of_def t2_def t1_def t0_def)
  have rf: "read_frames M 3 t0
            = Some ([Kernel (Some [0x6B]) 32, Record (r\<lparr>debug := debug (cur_record mem)\<rparr>)], Eof)"
    by (simp add: numeral_3_eq_3 n1 n2 n3 f1 f2)
  have v: "version t0 = 3" by (simp add: t0_def)
  show ?thesis
    unfolding w reopen_and_read_def by (simp add: o rf v)
qed

theorem kernel_record_session_witness:
  "header_kept spec_macros rec3 \<and> tag_kept spec_macros rec3 \<and> addr_len rec3 = 3
   \<and> length (addr_unit rec3) = 3 \<and> offsets_fit rec3 \<and> (91 :: nat) \<le> 100
   \<and> Option.bind (write_kernel_record spec_macros 100 [0x6B] 32 rec3)
        (reopen_and_read spec_macros mem0 3)
       = Some (3, [Kernel (Some [0x6B]) 32, Record rec3], Eof)"
proof -
  have h: "header_kept spec_macros rec3" by code_simp
  have t: "tag_kept spec_macros rec3" by code_simp
  have a: "addr_len rec3 = 3" by (simp add: rec3_def)
  have l: "length (addr_unit rec3) = 3" by (simp add: rec3_def)
  have f: "offsets_fit rec3" by code_simp
  have s: "(91 :: nat) \<le> 100" by simp
  have d: "rec3\<lparr>debug := debug (cur_record mem0)\<rparr> = rec3" by (simp add: rec3_def mem0_def)
  show ?thesis
    using h t a l f kernel_record_session [OF h t a l f s, of mem0] by (simp add: d)
qed

text \<open>
  C3 as stated fails twice: the record read back differs from the written one when the
  written one has \<open>debug = 9\<close> (the reader's is 0), and when its first offset is \<open>2 ^ 24\<close>
  (read back as 0).
\<close>

theorem kernel_record_session_not_equal:
  "Option.bind (write_kernel_record spec_macros 100 [0x6B] 32 rec_dbg)
       (reopen_and_read spec_macros mem0 3)
     \<noteq> Some (3, [Kernel (Some [0x6B]) 32, Record rec_dbg], Eof)
   \<and> Option.bind (write_kernel_record spec_macros 100 [0x6B] 32 rec3_far)
       (reopen_and_read spec_macros mem0 3)
     \<noteq> Some (3, [Kernel (Some [0x6B]) 32, Record rec3_far], Eof)"
  by code_simp

section \<open>Truncated files\<close>

lemma truncate3_append: "3 \<le> length b \<Longrightarrow> truncate3 (a @ b) = a @ take (length b - 3) b"
  by (simp add: truncate3_def)

text \<open>
  A damaged final frame, positioned at its first byte.  A record frame and a kernel frame
  with a name of at least 3 bytes give an error; a kernel frame with a shorter name leaves
  fewer than 8 bytes, which read as end-of-file.
\<close>

lemma truncated_record_frame:
  assumes tk: "tag_kept M r"
    and len: "length (addr_unit r) = unat (addr_len r)"
    and n0: "addr_len r \<noteq> 0" and n32: "unat (addr_len r) \<le> 32"
    and pk: "trace_pack M r = Some buf"
    and f: "file_f t = truncate3 (bytes_of_words buf)"
  shows "trace_next M t
         = Some (1, t\<lparr>new_kernel := 0, file_f := []\<rparr>, Some ''unable to read record'')"
proof -
  let ?h = "RECORD_SET_INIT M (addr_len r) (type_f r) (smid r) (warp r)
              (ctaid_x r) (ctaid_y r) (ctaid_z r) (clock r) (size_f r)"
  let ?n = "unat (addr_len r)"
  let ?tl = "addr_w ?h # cta ?h # concat (map unit_words (addr_unit r))"
  define body where "body = take (length (bytes_of_words ?tl) - 3) (bytes_of_words ?tl)"
  from pk have "buf = header_words ?h @ concat (map unit_words (addr_unit r))"
    by (simp add: pack_full [OF len])
  then have b2: "buf = desc ?h # ?tl" by (simp add: header_words_def)
  have bw: "bytes_of_words buf = word_bytes (desc ?h) @ bytes_of_words ?tl"
    by (simp add: b2 bytes_of_words_def)
  have ltl: "length (bytes_of_words ?tl) = 16 + 16 * ?n"
    by (simp add: length_bytes_of_words length_units len)
  have lb: "length body = 13 + 16 * ?n"
    unfolding body_def ltl by (simp add: ltl)
  have ft: "file_f t = word_bytes (desc ?h) @ body"
    unfolding f bw body_def by (rule truncate3_append) (simp add: ltl)
  have r8: "fread1 8 (word_bytes (desc ?h) @ body) = (1, word_bytes (desc ?h), body)"
    using fread1_prefix [of "word_bytes (desc ?h)" body] by (simp add: length_word_bytes)
  from tk have ch: "(ucast (drop_bit 56 (desc ?h) AND 0xFF) :: byte) = addr_len r"
    by (simp add: tag_kept_def)
  have rb: "fread1 (RECORD_RAW_SIZE ?n - 8) body = (0, body, [])"
    by (rule fread1_short) (simp add: lb RECORD_RAW_SIZE_def)
  show ?thesis
    unfolding trace_next_def ft using n32
    by (simp add: r8 bytes_word_bytes ch n0 rb lb TRACE_RECORD_SIZE_def Let_def)
qed

lemma truncated_kernel_frame:
  assumes n3: "3 \<le> length name" and n255: "length name \<le> 255"
    and f: "file_f t = truncate3 (word_bytes (kernel_header (of_nat (length name)) bsz) @ name)"
  shows "trace_next M t
         = Some (1, t\<lparr>file_f := [], kernel_name := Some (c_string (take (length name - 3) name))\<rparr>,
                 Some ''unable to read kernel name length'')"
proof -
  let ?h = "kernel_header (of_nat (length name)) bsz"
  let ?nm = "take (length name - 3) name"
  have ft: "file_f t = word_bytes ?h @ ?nm"
    unfolding f using n3 by (rule truncate3_append)
  have r8: "fread1 8 (word_bytes ?h @ ?nm) = (1, word_bytes ?h, ?nm)"
    using fread1_prefix [of "word_bytes ?h" ?nm] by (simp add: length_word_bytes)
  have u: "unat (of_nat (length name) :: byte) = length name"
    using n255 by (rule byte_of_length)
  have rn: "fread1 (length name) ?nm = (0, ?nm, [])"
    by (rule fread1_short) (use n3 in simp)
  show ?thesis
    unfolding trace_next_def ft
    by (simp add: r8 bytes_word_bytes kh_tag kh_len u rn Let_def)
qed

lemma truncated_short_kernel_frame:
  assumes n2: "length name \<le> 2"
    and f: "file_f t = truncate3 (word_bytes (kernel_header (of_nat (length name)) bsz) @ name)"
  shows "trace_next M t = Some (1, t\<lparr>file_f := []\<rparr>, None)"
proof -
  have "length (file_f t) < 8"
    unfolding f truncate3_def using n2 by (simp add: length_word_bytes)
  then show ?thesis by (rule trace_next_short)
qed

text \<open>
  C6.  The file made of a version-3 header and the kernel frame "k" with block size 32 is
  valid: it reads as that frame followed by end-of-file.  With its last three bytes
  removed, six bytes of the frame remain, and the reader reports end-of-file (result 1, no
  error) where the claim demands a truncation error.
\<close>

theorem truncated_kernel_frame_reads_as_eof:
  "trace_write_kernel \<lparr>written = v3, room = 90\<rparr> [0x6B] 32
     = (0, \<lparr>written = v3 @ [0, 0, 0, 0, 32, 0, 1, 0, 0x6B], room = 81\<rparr>, None)
   \<and> reopen_and_read spec_macros mem0 2 (v3 @ [0, 0, 0, 0, 32, 0, 1, 0, 0x6B])
     = Some (3, [Kernel (Some [0x6B]) 32], Eof)
   \<and> truncate3 (v3 @ [0, 0, 0, 0, 32, 0, 1, 0, 0x6B]) = v3 @ [0, 0, 0, 0, 32, 0]
   \<and> reopen_and_read spec_macros mem0 2 (truncate3 (v3 @ [0, 0, 0, 0, 32, 0, 1, 0, 0x6B]))
     = Some (3, [], Eof)"
  by code_simp

end
